theory Spec2Isabelle
  imports Main "HOL-Library.Word"
begin

section \<open>Data model of package core (trace tree and its annotation)\<close>

text \<open>
  Modelled from the spec: \<^verbatim>\<open>tongo.AccountID\<close> is declared in the tongo library. It is
  a comparable struct of a 32-bit workchain and a 32-byte address; the code uses it as a map
  key and copies it, nothing else. The 32 bytes are read as one 256-bit word.
\<close>

datatype AccountID = AccountID (Workchain: "32 word") (Address: "256 word")

text \<open>
  Modelled from the spec: \<^verbatim>\<open>abi.ContractInterface\<close> and its constants are declared in
  the tongo library. Only the two sale capabilities are named by the code; every other tag is
  \<open>OtherInterface\<close> with its number.
\<close>

datatype ContractInterface = NftSale | NftSaleGetgems | OtherInterface nat

type_synonym MsgOpName = string

text \<open>
  Modelled from the spec: the constant \<^verbatim>\<open>abi.JettonTransferMsgOp\<close> of the tongo library,
  the name of the token-transfer operation.
\<close>

definition JettonTransferMsgOp :: MsgOpName where
  "JettonTransferMsgOp = ''JettonTransfer''"

text \<open>
  Modelled from the spec: \<^verbatim>\<open>DecodedMessageBody\<close>, \<^verbatim>\<open>Message\<close> and \<^verbatim>\<open>Transaction\<close> are
  declared in other files of package core. The records hold the fields that this file reads
  (\<^verbatim>\<open>Operation\<close>; \<^verbatim>\<open>Destination\<close>, \<^verbatim>\<open>DecodedBody\<close>; \<^verbatim>\<open>Account\<close>, \<^verbatim>\<open>InMsg\<close>, \<^verbatim>\<open>OutMsgs\<close>)
  and the raw body of a message as its content. A Go pointer that may be nil is an \<open>option\<close>.
\<close>

record DecodedMessageBody =
  Operation :: MsgOpName

record Message =
  Destination :: "AccountID option"
  DecodedBody :: "DecodedMessageBody option"
  Body :: "8 word list"

record Transaction =
  Account :: AccountID
  InMsg :: "Message option"
  OutMsgs :: "Message list"

text \<open>\<^verbatim>\<open>type NftSaleContract struct { NftPrice int64; Owner *tongo.AccountID }\<close>; the signed price is read from its word by \<open>sint\<close>.\<close>

record NftSaleContract =
  NftPrice :: "64 word"
  Owner :: "AccountID option"

text \<open>\<^verbatim>\<open>type TraceAdditionalInfo struct { JettonMaster *tongo.AccountID; NftSaleContract *NftSaleContract }\<close>\<close>

record TraceAdditionalInfo =
  JettonMaster :: "AccountID option"
  NftSaleContract :: "NftSaleContract option"

text \<open>
  \<^verbatim>\<open>type Trace struct { Transaction; AccountInterfaces; Children []*Trace; AdditionalInfo *TraceAdditionalInfo }\<close>.
  A trace is a tree that owns its children: no child pointer is nil and no node is shared, so a
  node is a value that contains its subtrees. The fields of the embedded transaction are read
  through \<open>Transaction\<close>.
\<close>

datatype Trace =
  Trace (Transaction: Transaction)
        (AccountInterfaces: "ContractInterface list")
        (Children: "Trace list")
        (AdditionalInfo: "TraceAdditionalInfo option")

text \<open>Assignment to one field of a node, the other fields kept.\<close>

fun set_AdditionalInfo :: "Trace \<Rightarrow> TraceAdditionalInfo option \<Rightarrow> Trace" where
  "set_AdditionalInfo (Trace tx ifs cs ai) ai' = Trace tx ifs cs ai'"

fun set_Children :: "Trace \<Rightarrow> Trace list \<Rightarrow> Trace" where
  "set_Children (Trace tx ifs cs ai) cs' = Trace tx ifs cs' ai"

text \<open>
  The nodes of a tree in pre-order: a node, then the nodes of each child's subtree, the
  children taken in the order of \<open>Children\<close>. This is the reference enumeration that the
  statements below speak about; it is not part of the program.
\<close>

fun preorderNodes :: "Trace \<Rightarrow> Trace list" where
  "preorderNodes (Trace tx ifs cs ai) = Trace tx ifs cs ai # concat (map preorderNodes cs)"

section \<open>Completeness tracker\<close>

text \<open>
  \<^verbatim>\<open>countUncompleted\<close>: \<open>c\<close> starts at \<^verbatim>\<open>len(t.OutMsgs)\<close> and the loop over the children adds
  each child's count. Go's \<^verbatim>\<open>int\<close> has 64 bits; the count is at most the number of messages
  that the tree holds in memory, far below \<open>2^63\<close>, so the sum is taken in the integers.
\<close>

fun countUncompleted :: "Trace \<Rightarrow> int" where
  "countUncompleted (Trace tx ifs cs ai) =
     foldl (\<lambda>c st. c + countUncompleted st) (int (length (OutMsgs tx))) cs"

definition InProgress :: "Trace \<Rightarrow> bool" where
  "InProgress t = (countUncompleted t \<noteq> 0)"

text \<open>
  Two trees have the same shape and the same outbound-message counts: the roots hold equally
  many outbound messages and have equally many children, which correspond pairwise in order.
  Nothing else of a node is compared.
\<close>

fun sameOutboundShape :: "Trace \<Rightarrow> Trace \<Rightarrow> bool"
  and sameOutboundShapes :: "Trace list \<Rightarrow> Trace list \<Rightarrow> bool" where
  "sameOutboundShape (Trace tx ifs cs ai) (Trace tx' ifs' cs' ai') =
     (length (OutMsgs tx) = length (OutMsgs tx') \<and> sameOutboundShapes cs cs')"
| "sameOutboundShapes [] [] = True"
| "sameOutboundShapes (c # cs) (c' # cs') = (sameOutboundShape c c' \<and> sameOutboundShapes cs cs')"
| "sameOutboundShapes [] (c' # cs') = False"
| "sameOutboundShapes (c # cs) [] = False"

section \<open>Classification of a node\<close>

fun isDestinationJettonWallet :: "Message option \<Rightarrow> bool" where
  "isDestinationJettonWallet None = False"
| "isDestinationJettonWallet (Some inMsg) =
     (case DecodedBody inMsg of
        None \<Rightarrow> False
      | Some body \<Rightarrow> Operation body = JettonTransferMsgOp \<and> Destination inMsg \<noteq> None)"

text \<open>
  The dereference \<^verbatim>\<open>*trace.InMsg.Destination\<close>: \<open>None\<close> stands for the nil-pointer panic.
  Both uses are guarded by \<open>isDestinationJettonWallet\<close>, under which it is never \<open>None\<close>
  (lemma \<open>isDestinationJettonWallet_deref\<close>).
\<close>

definition derefDestination :: "Message option \<Rightarrow> AccountID option" where
  "derefDestination inMsg = (case inMsg of None \<Rightarrow> None | Some m \<Rightarrow> Destination m)"

fun hasInterface :: "ContractInterface list \<Rightarrow> ContractInterface \<Rightarrow> bool" where
  "hasInterface [] name = False"
| "hasInterface (iface # interfacesList) name =
     (if iface = name then True else hasInterface interfacesList name)"

section \<open>Traversal\<close>

text \<open>
  \<^verbatim>\<open>visit(trace, fn)\<close> calls \<open>fn\<close> on the node and then visits the children in the order of
  \<^verbatim>\<open>trace.Children\<close>, read after \<open>fn\<close> has run. A visitor is a Go closure: it may write the
  node it is given, its subtrees included, and the variables it has captured. In the model it
  takes the node and the captured variables and returns both as it leaves them. A visitor that
  keeps adding children makes the walk run forever; \<open>None\<close> is a walk that does not return.

  \<open>visitChildren\<close> is the loop over the children. Its body is the call of \<open>visit\<close> on the
  child, written out, since the two functions are defined one after the other (lemma
  \<open>visitChildren_Cons\<close> states the loop with the call).
\<close>

partial_function (option) visitChildren ::
  "Trace list \<Rightarrow> (Trace \<Rightarrow> 'a \<Rightarrow> Trace \<times> 'a) \<Rightarrow> 'a \<Rightarrow> (Trace list \<times> 'a) option" where
  "visitChildren children fn env =
     (case children of
        [] \<Rightarrow> Some ([], env)
      | child # rest \<Rightarrow>
          (case fn child env of
             (child', env1) \<Rightarrow>
               Option.bind (visitChildren (Children child') fn env1)
                 (\<lambda>(cs', env2).
                    Option.bind (visitChildren rest fn env2)
                      (\<lambda>(rest', env3). Some (set_Children child' cs' # rest', env3)))))"

declare visitChildren.simps [code]

definition visit :: "Trace \<Rightarrow> (Trace \<Rightarrow> 'a \<Rightarrow> Trace \<times> 'a) \<Rightarrow> 'a \<Rightarrow> (Trace \<times> 'a) option" where
  "visit trace fn env =
     (case fn trace env of
        (trace', env1) \<Rightarrow>
          Option.bind (visitChildren (Children trace') fn env1)
            (\<lambda>(cs', env2). Some (set_Children trace' cs', env2)))"

text \<open>
  A visitor instrumented with a journal: it does what \<open>fn\<close> does and appends the node it was
  called on, as it was at the call, to the journal.
\<close>

definition journalled :: "(Trace \<Rightarrow> 'a \<Rightarrow> Trace \<times> 'a) \<Rightarrow> Trace \<Rightarrow> 'a \<times> Trace list \<Rightarrow> Trace \<times> 'a \<times> Trace list" where
  "journalled fn trace envj =
     (case fn trace (fst envj) of (trace', env') \<Rightarrow> (trace', env', snd envj @ [trace]))"

section \<open>Batched enrichment\<close>

text \<open>The three slices that the first walk fills.\<close>

record Candidates =
  jettonWallets :: "AccountID list"
  getGemsContracts :: "AccountID list"
  basicNftSale :: "AccountID list"

text \<open>The closure of the first walk (lines 85 to 95): it reads the node and appends to the slices.\<close>

definition collectVisitor :: "Trace \<Rightarrow> Candidates \<Rightarrow> Trace \<times> Candidates" where
  "collectVisitor trace c =
     (let c1 = (if isDestinationJettonWallet (InMsg (Transaction trace))
                then (case derefDestination (InMsg (Transaction trace)) of
                        Some d \<Rightarrow> c\<lparr>jettonWallets := jettonWallets c @ [d]\<rparr>
                      | None \<Rightarrow> c)
                else c);
          c2 = (if hasInterface (AccountInterfaces trace) NftSaleGetgems
                then c1\<lparr>getGemsContracts := getGemsContracts c1 @ [Account (Transaction trace)]\<rparr>
                else c1);
          c3 = (if hasInterface (AccountInterfaces trace) NftSale
                then c2\<lparr>basicNftSale := basicNftSale c2 @ [Account (Transaction trace)]\<rparr>
                else c2)
      in (trace, c3))"

text \<open>
  The closure of the second walk (lines 108 to 125): the node gets a new, empty
  \<^verbatim>\<open>TraceAdditionalInfo\<close>, whose fields are then assigned from the three result maps. It
  captures nothing that it writes, so its environment is \<open>unit\<close>.
\<close>

definition assignVisitor ::
  "(AccountID \<rightharpoonup> AccountID) \<Rightarrow> (AccountID \<rightharpoonup> NftSaleContract) \<Rightarrow> (AccountID \<rightharpoonup> NftSaleContract)
     \<Rightarrow> Trace \<Rightarrow> unit \<Rightarrow> Trace \<times> unit" where
  "assignVisitor masters getGems basicNftSales trace u =
     (let a0 = \<lparr>JettonMaster = None, NftSaleContract = None\<rparr>;
          a1 = (if isDestinationJettonWallet (InMsg (Transaction trace))
                then (case derefDestination (InMsg (Transaction trace)) of
                        Some d \<Rightarrow> (case masters d of
                                     Some master \<Rightarrow> a0\<lparr>JettonMaster := Some master\<rparr>
                                   | None \<Rightarrow> a0)
                      | None \<Rightarrow> a0)
                else a0);
          a2 = (if hasInterface (AccountInterfaces trace) NftSaleGetgems
                then (case getGems (Account (Transaction trace)) of
                        Some getgems \<Rightarrow> a1\<lparr>NftSaleContract := Some getgems\<rparr>
                      | None \<Rightarrow> a1)
                else a1);
          a3 = (if hasInterface (AccountInterfaces trace) NftSale
                then (case basicNftSales (Account (Transaction trace)) of
                        Some sale \<Rightarrow> a2\<lparr>NftSaleContract := Some sale\<rparr>
                      | None \<Rightarrow> a2)
                else a2)
      in (set_AdditionalInfo trace (Some a3), u))"

text \<open>
  Go's \<^verbatim>\<open>error\<close> values, and \<^verbatim>\<open>InformationSource\<close>. The source is outside the program: a
  method may answer from a state of its own and change it, so each method takes the state of
  the source and returns the new one beside its result (\<open>Inl\<close> the error, \<open>Inr\<close> the map). The
  context is handed to the source and not used otherwise; a cancellation is an error that the
  source returns. A nil interface value is \<open>None\<close>.
\<close>

datatype error = Error string

record 's InformationSource =
  JettonMastersForWallets :: "'s \<Rightarrow> AccountID list \<Rightarrow> (error + (AccountID \<rightharpoonup> AccountID)) \<times> 's"
  GetGemsContracts :: "'s \<Rightarrow> AccountID list \<Rightarrow> (error + (AccountID \<rightharpoonup> NftSaleContract)) \<times> 's"
  NftSaleContracts :: "'s \<Rightarrow> AccountID list \<Rightarrow> (error + (AccountID \<rightharpoonup> NftSaleContract)) \<times> 's"

text \<open>The calls made on the source, each with the slice it was given.\<close>

datatype Query =
  JettonMastersForWalletsQuery "AccountID list"
| GetGemsContractsQuery "AccountID list"
| NftSaleContractsQuery "AccountID list"

text \<open>
  What a call of \<^verbatim>\<open>CollectAdditionalInfo\<close> leaves behind: the returned error (\<open>None\<close> is
  nil), the tree, the state of the source, and the calls it made on the source, in order.
\<close>

record 's Outcome =
  returned :: "error option"
  tree :: Trace
  sourceState :: 's
  issued :: "Query list"

text \<open>The result \<open>None\<close> is a call that does not return, because one of its walks does not.\<close>

definition CollectAdditionalInfo ::
  "'s InformationSource option \<Rightarrow> 's \<Rightarrow> Trace \<Rightarrow> 's Outcome option" where
  "CollectAdditionalInfo infoSource s trace =
     (case infoSource of
        None \<Rightarrow> Some \<lparr>returned = None, tree = trace, sourceState = s, issued = []\<rparr>
      | Some src \<Rightarrow>
         (case visit trace collectVisitor \<lparr>jettonWallets = [], getGemsContracts = [], basicNftSale = []\<rparr> of
            None \<Rightarrow> None
          | Some (trace1, c) \<Rightarrow>
              (case JettonMastersForWallets src s (jettonWallets c) of
                 (Inl err, s1) \<Rightarrow>
                   Some \<lparr>returned = Some err, tree = trace1, sourceState = s1,
                         issued = [JettonMastersForWalletsQuery (jettonWallets c)]\<rparr>
               | (Inr masters, s1) \<Rightarrow>
                   (case GetGemsContracts src s1 (getGemsContracts c) of
                      (Inl err, s2) \<Rightarrow>
                        Some \<lparr>returned = Some err, tree = trace1, sourceState = s2,
                              issued = [JettonMastersForWalletsQuery (jettonWallets c),
                                        GetGemsContractsQuery (getGemsContracts c)]\<rparr>
                    | (Inr getGems, s2) \<Rightarrow>
                        (case NftSaleContracts src s2 (basicNftSale c) of
                           (Inl err, s3) \<Rightarrow>
                             Some \<lparr>returned = Some err, tree = trace1, sourceState = s3,
                                   issued = [JettonMastersForWalletsQuery (jettonWallets c),
                                             GetGemsContractsQuery (getGemsContracts c),
                                             NftSaleContractsQuery (basicNftSale c)]\<rparr>
                         | (Inr basicNftSales, s3) \<Rightarrow>
                             (case visit trace1 (assignVisitor masters getGems basicNftSales) () of
                                None \<Rightarrow> None
                              | Some (trace2, u) \<Rightarrow>
                                  Some \<lparr>returned = None, tree = trace2, sourceState = s3,
                                        issued = [JettonMastersForWalletsQuery (jettonWallets c),
                                                  GetGemsContractsQuery (getGemsContracts c),
                                                  NftSaleContractsQuery (basicNftSale c)]\<rparr>))))))"

section \<open>Reference notions used in the statements\<close>

text \<open>
  The walk over the subtrees that a node had before the visitor was called on it: a total
  function, which is what \<open>visit\<close> computes for every visitor that leaves the subtrees of the
  node it is given as they are (lemma \<open>visit_walk\<close>). It is not part of the program.
\<close>

fun walk :: "Trace \<Rightarrow> (Trace \<Rightarrow> 'a \<Rightarrow> Trace \<times> 'a) \<Rightarrow> 'a \<Rightarrow> Trace \<times> 'a"
  and walkChildren :: "Trace list \<Rightarrow> (Trace \<Rightarrow> 'a \<Rightarrow> Trace \<times> 'a) \<Rightarrow> 'a \<Rightarrow> Trace list \<times> 'a" where
  "walk (Trace tx ifs cs ai) fn env =
     (case fn (Trace tx ifs cs ai) env of
        (trace', env1) \<Rightarrow>
          (case walkChildren cs fn env1 of
             (cs', env2) \<Rightarrow> (set_Children trace' cs', env2)))"
| "walkChildren [] fn env = ([], env)"
| "walkChildren (child # rest) fn env =
     (case walk child fn env of
        (child', env1) \<Rightarrow>
          (case walkChildren rest fn env1 of
             (rest', env2) \<Rightarrow> (child' # rest', env2)))"

text \<open>
  The destination of a node's token transfer, in the words of the specification: the inbound
  message is present, is decoded, has the token-transfer operation and carries a destination.
\<close>

definition transferDestination :: "Trace \<Rightarrow> AccountID option" where
  "transferDestination n =
     (case InMsg (Transaction n) of
        None \<Rightarrow> None
      | Some m \<Rightarrow>
          (case DecodedBody m of
             None \<Rightarrow> None
           | Some body \<Rightarrow> if Operation body = JettonTransferMsgOp then Destination m else None))"

text \<open>
  The three candidate sequences of the specification: the qualifying addresses of the nodes in
  pre-order, every occurrence kept.
\<close>

definition jettonWalletCandidates :: "Trace \<Rightarrow> AccountID list" where
  "jettonWalletCandidates t = List.map_filter transferDestination (preorderNodes t)"

definition getgemsCandidates :: "Trace \<Rightarrow> AccountID list" where
  "getgemsCandidates t =
     map (\<lambda>n. Account (Transaction n))
       (filter (\<lambda>n. NftSaleGetgems \<in> set (AccountInterfaces n)) (preorderNodes t))"

definition basicSaleCandidates :: "Trace \<Rightarrow> AccountID list" where
  "basicSaleCandidates t =
     map (\<lambda>n. Account (Transaction n))
       (filter (\<lambda>n. NftSale \<in> set (AccountInterfaces n)) (preorderNodes t))"

text \<open>
  The annotation that the specification prescribes for a node, given the three resolved
  mappings: the master of the transfer destination if there is one; the basic-sale data if the
  node has the generic sale capability and the mapping knows its account, otherwise the
  marketplace-variant data under the corresponding condition.
\<close>

definition resolvedInfo ::
  "(AccountID \<rightharpoonup> AccountID) \<Rightarrow> (AccountID \<rightharpoonup> NftSaleContract) \<Rightarrow> (AccountID \<rightharpoonup> NftSaleContract)
     \<Rightarrow> Trace \<Rightarrow> TraceAdditionalInfo" where
  "resolvedInfo masters getGems basicNftSales n =
     \<lparr>JettonMaster = (case transferDestination n of None \<Rightarrow> None | Some d \<Rightarrow> masters d),
      NftSaleContract =
        (case (if NftSale \<in> set (AccountInterfaces n)
               then basicNftSales (Account (Transaction n)) else None) of
           Some sale \<Rightarrow> Some sale
         | None \<Rightarrow>
             (if NftSaleGetgems \<in> set (AccountInterfaces n)
              then getGems (Account (Transaction n)) else None))\<rparr>"

text \<open>The tree in which every node carries the prescribed annotation and nothing else differs.\<close>

fun enriched ::
  "(AccountID \<rightharpoonup> AccountID) \<Rightarrow> (AccountID \<rightharpoonup> NftSaleContract) \<Rightarrow> (AccountID \<rightharpoonup> NftSaleContract)
     \<Rightarrow> Trace \<Rightarrow> Trace" where
  "enriched masters getGems basicNftSales (Trace tx ifs cs ai) =
     Trace tx ifs (map (enriched masters getGems basicNftSales) cs)
       (Some (resolvedInfo masters getGems basicNftSales (Trace tx ifs cs ai)))"

text \<open>The tree with every annotation removed.\<close>

fun withoutAdditionalInfo :: "Trace \<Rightarrow> Trace" where
  "withoutAdditionalInfo (Trace tx ifs cs ai) = Trace tx ifs (map withoutAdditionalInfo cs) None"

text \<open>The number of nodes of a tree.\<close>

fun nodeCount :: "Trace \<Rightarrow> nat" where
  "nodeCount (Trace tx ifs cs ai) = Suc (sum_list (map nodeCount cs))"

text \<open>
  A source returns the same answers on every call: the result of each method depends on the
  slice it is given and not on the state of the source.
\<close>

definition sameAnswersOnEveryCall :: "'s InformationSource \<Rightarrow> bool" where
  "sameAnswersOnEveryCall src =
     (\<forall>s s' ks.
        fst (JettonMastersForWallets src s ks) = fst (JettonMastersForWallets src s' ks)
      \<and> fst (GetGemsContracts src s ks) = fst (GetGemsContracts src s' ks)
      \<and> fst (NftSaleContracts src s ks) = fst (NftSaleContracts src s' ks))"

section \<open>Concrete traces and sources\<close>

definition walletD :: AccountID where "walletD = AccountID 0 3"
definition masterM :: AccountID where "masterM = AccountID 0 4"
definition ownerA :: AccountID where "ownerA = AccountID 0 1"
definition saleB :: AccountID where "saleB = AccountID 0 2"

definition transferMsg :: Message where
  "transferMsg = \<lparr>Destination = Some walletD,
                  DecodedBody = Some \<lparr>Operation = JettonTransferMsgOp\<rparr>, Body = []\<rparr>"

definition plainMsg :: Message where
  "plainMsg = \<lparr>Destination = Some ownerA, DecodedBody = None, Body = [1, 2]\<rparr>"

definition getgemsSale :: NftSaleContract where
  "getgemsSale = \<lparr>NftPrice = 100, Owner = Some ownerA\<rparr>"

definition basicSale :: NftSaleContract where
  "basicSale = \<lparr>NftPrice = 250, Owner = Some masterM\<rparr>"

text \<open>
  A token transfer to \<open>walletD\<close> at the root; a child whose account \<open>saleB\<close> has both sale
  capabilities; a child with a plain inbound message and one unmatched outbound message.
\<close>

definition exampleTrace :: Trace where
  "exampleTrace =
     Trace \<lparr>Account = walletD, InMsg = Some transferMsg, OutMsgs = []\<rparr> [OtherInterface 7]
       [Trace \<lparr>Account = saleB, InMsg = None, OutMsgs = []\<rparr> [NftSaleGetgems, NftSale] [] None,
        Trace \<lparr>Account = ownerA, InMsg = Some plainMsg, OutMsgs = [plainMsg]\<rparr> [] [] None]
       None"

text \<open>The shape and the outbound counts of \<open>exampleTrace\<close>, everything else different.\<close>

definition lookalikeTrace :: Trace where
  "lookalikeTrace =
     Trace \<lparr>Account = ownerA, InMsg = None, OutMsgs = []\<rparr> [NftSale]
       [Trace \<lparr>Account = saleB, InMsg = Some plainMsg, OutMsgs = []\<rparr> [] []
          (Some \<lparr>JettonMaster = Some masterM, NftSaleContract = None\<rparr>),
        Trace \<lparr>Account = masterM, InMsg = None, OutMsgs = [transferMsg]\<rparr> [OtherInterface 1] [] None]
       (Some \<lparr>JettonMaster = None, NftSaleContract = Some basicSale\<rparr>)"

text \<open>A tree without unmatched outbound messages.\<close>

definition settledTrace :: Trace where
  "settledTrace =
     Trace \<lparr>Account = walletD, InMsg = Some transferMsg, OutMsgs = []\<rparr> []
       [Trace \<lparr>Account = saleB, InMsg = None, OutMsgs = []\<rparr> [NftSale] [] None]
       None"

text \<open>A single node that an earlier run has annotated.\<close>

definition annotatedLeaf :: Trace where
  "annotatedLeaf =
     Trace \<lparr>Account = ownerA, InMsg = None, OutMsgs = []\<rparr> [] []
       (Some \<lparr>JettonMaster = None, NftSaleContract = None\<rparr>)"

text \<open>A visitor that empties the \<open>Children\<close> of the node it is given.\<close>

definition clearChildren :: "Trace \<Rightarrow> unit \<Rightarrow> Trace \<times> unit" where
  "clearChildren trace u = (set_Children trace [], u)"

text \<open>Sources whose state counts the calls made on them.\<close>

definition exampleSource :: "nat InformationSource" where
  "exampleSource =
     \<lparr>JettonMastersForWallets = (\<lambda>s ks. (Inr [walletD \<mapsto> masterM], Suc s)),
      GetGemsContracts = (\<lambda>s ks. (Inr [saleB \<mapsto> getgemsSale], Suc s)),
      NftSaleContracts = (\<lambda>s ks. (Inr [saleB \<mapsto> basicSale], Suc s))\<rparr>"

definition getgemsOnlySource :: "nat InformationSource" where
  "getgemsOnlySource =
     \<lparr>JettonMastersForWallets = (\<lambda>s ks. (Inr Map.empty, Suc s)),
      GetGemsContracts = (\<lambda>s ks. (Inr [saleB \<mapsto> getgemsSale], Suc s)),
      NftSaleContracts = (\<lambda>s ks. (Inr Map.empty, Suc s))\<rparr>"

definition failingSource :: "nat InformationSource" where
  "failingSource =
     \<lparr>JettonMastersForWallets = (\<lambda>s ks. (Inl (Error ''source unavailable''), Suc s)),
      GetGemsContracts = (\<lambda>s ks. (Inr [saleB \<mapsto> getgemsSale], Suc s)),
      NftSaleContracts = (\<lambda>s ks. (Inr [saleB \<mapsto> basicSale], Suc s))\<rparr>"

definition secondFailingSource :: "nat InformationSource" where
  "secondFailingSource =
     \<lparr>JettonMastersForWallets = (\<lambda>s ks. (Inr [walletD \<mapsto> masterM], Suc s)),
      GetGemsContracts = (\<lambda>s ks. (Inl (Error ''context canceled''), Suc s)),
      NftSaleContracts = (\<lambda>s ks. (Inr [saleB \<mapsto> basicSale], Suc s))\<rparr>"

section \<open>Auxiliary facts\<close>

lemma foldl_add_sum_list:
  "foldl (\<lambda>c st. c + f st) a cs = a + sum_list (map f cs)" for a :: int
  by (induction cs arbitrary: a) simp_all

lemma sum_list_concat_map:
  "sum_list (map f (concat (map g cs))) = sum_list (map (\<lambda>c. sum_list (map f (g c))) cs)" for f :: "'a \<Rightarrow> int"
  by (induction cs) simp_all

lemma countUncompleted_sum:
  "countUncompleted t = (\<Sum>n\<leftarrow>preorderNodes t. int (length (OutMsgs (Transaction n))))"
proof (induction t)
  case (Trace tx ifs cs ai)
  then have "map countUncompleted cs =
      map (\<lambda>c. \<Sum>n\<leftarrow>preorderNodes c. int (length (OutMsgs (Transaction n)))) cs"
    by simp
  then show ?case
    by (simp add: foldl_add_sum_list sum_list_concat_map del: map_eq_conv)
qed

lemma countUncompleted_nat:
  "countUncompleted t = int (\<Sum>n\<leftarrow>preorderNodes t. length (OutMsgs (Transaction n)))"
proof -
  have "map (\<lambda>n. int (length (OutMsgs (Transaction n)))) (preorderNodes t)
      = map int (map (\<lambda>n. length (OutMsgs (Transaction n))) (preorderNodes t))"
    by simp
  then show ?thesis
    by (simp only: countUncompleted_sum sum_list_of_nat)
qed

lemma InProgress_iff_ex:
  "InProgress t = (\<exists>n \<in> set (preorderNodes t). OutMsgs (Transaction n) \<noteq> [])"
  by (auto simp add: InProgress_def countUncompleted_nat sum_list_eq_0_iff)


lemma sameOutboundShape_count:
  "sameOutboundShape t u \<Longrightarrow> countUncompleted t = countUncompleted u"
  "sameOutboundShapes ts us \<Longrightarrow> map countUncompleted ts = map countUncompleted us"
proof (induction t u and ts us rule: sameOutboundShape_sameOutboundShapes.induct)
  case (1 tx ifs cs ai tx' ifs' cs' ai')
  then show ?case by (simp add: foldl_add_sum_list)
qed simp_all

lemma hasInterface_iff: "hasInterface interfacesList name = (name \<in> set interfacesList)"
  by (induction interfacesList) auto

lemma isDestinationJettonWallet_iff:
  "isDestinationJettonWallet (InMsg (Transaction n)) = (transferDestination n \<noteq> None)"
  by (cases "InMsg (Transaction n)") (auto simp: transferDestination_def split: option.splits)

lemma isDestinationJettonWallet_deref:
  "isDestinationJettonWallet inMsg \<Longrightarrow> \<exists>d. derefDestination inMsg = Some d"
  by (cases inMsg) (auto simp: derefDestination_def split: option.splits)

lemma derefDestination_transfer:
  "isDestinationJettonWallet (InMsg (Transaction n)) \<Longrightarrow>
     derefDestination (InMsg (Transaction n)) = transferDestination n"
  by (cases "InMsg (Transaction n)")
     (auto simp: derefDestination_def transferDestination_def split: option.splits)

lemma collectVisitor_node: "fst (collectVisitor n c) = n"
  by (simp add: collectVisitor_def Let_def)

lemma assignVisitor_Children: "Children (fst (assignVisitor masters getGems basicNftSales n u)) = Children n"
  by (cases n) (simp add: assignVisitor_def Let_def)

lemma walk_reader:
  "\<forall>n e. fst (fn n e) = n \<Longrightarrow>
     walk t fn env = (t, fold (\<lambda>n e. snd (fn n e)) (preorderNodes t) env)"
  "\<forall>n e. fst (fn n e) = n \<Longrightarrow>
     walkChildren cs fn env = (cs, fold (\<lambda>n e. snd (fn n e)) (concat (map preorderNodes cs)) env)"
proof (induction t fn env and cs fn env rule: walk_walkChildren.induct)
  case (1 tx ifs cs ai fn env)
  define e' where "e' = snd (fn (Trace tx ifs cs ai) env)"
  have f: "fn (Trace tx ifs cs ai) env = (Trace tx ifs cs ai, e')"
    using "1.prems" by (simp add: prod_eq_iff e'_def)
  show ?case using "1.IH" [OF f [symmetric] "1.prems"] f by simp
next
  case (2 fn env)
  show ?case by simp
next
  case (3 child rest fn env)
  show ?case using 3 by (simp split: prod.splits)
qed

lemma walk_journalled_both:
  "walk t (journalled fn) (env, j) =
     (fst (walk t fn env), snd (walk t fn env), j @ preorderNodes t)"
  "walkChildren cs (journalled fn) (env, j) =
     (fst (walkChildren cs fn env), snd (walkChildren cs fn env), j @ concat (map preorderNodes cs))"
proof (induction t fn env and cs fn env arbitrary: j and j rule: walk_walkChildren.induct)
  case (1 tx ifs cs ai fn env)
  show ?case using 1 by (simp add: journalled_def split: prod.splits)
next
  case (2 fn env)
  show ?case by simp
next
  case (3 child rest fn env)
  show ?case using 3 by (simp split: prod.splits)
qed

lemma collectVisitor_step:
  "snd (collectVisitor n c) =
     \<lparr>jettonWallets = jettonWallets c @ (case transferDestination n of None \<Rightarrow> [] | Some d \<Rightarrow> [d]),
      getGemsContracts = getGemsContracts c @
         (if NftSaleGetgems \<in> set (AccountInterfaces n) then [Account (Transaction n)] else []),
      basicNftSale = basicNftSale c @
         (if NftSale \<in> set (AccountInterfaces n) then [Account (Transaction n)] else [])\<rparr>"
proof (cases "isDestinationJettonWallet (InMsg (Transaction n))")
  case True
  then obtain d where d: "transferDestination n = Some d"
    by (auto simp: isDestinationJettonWallet_iff)
  with True have "derefDestination (InMsg (Transaction n)) = Some d"
    by (simp add: derefDestination_transfer)
  with True d show ?thesis
    by (simp add: collectVisitor_def Let_def hasInterface_iff)
next
  case False
  then have "transferDestination n = None"
    by (simp add: isDestinationJettonWallet_iff)
  with False show ?thesis
    by (simp add: collectVisitor_def Let_def hasInterface_iff)
qed

lemma collectVisitor_fold:
  "fold (\<lambda>n e. snd (collectVisitor n e)) ns c =
     \<lparr>jettonWallets = jettonWallets c @ List.map_filter transferDestination ns,
      getGemsContracts = getGemsContracts c @
         map (\<lambda>n. Account (Transaction n)) (filter (\<lambda>n. NftSaleGetgems \<in> set (AccountInterfaces n)) ns),
      basicNftSale = basicNftSale c @
         map (\<lambda>n. Account (Transaction n)) (filter (\<lambda>n. NftSale \<in> set (AccountInterfaces n)) ns)\<rparr>"
proof (induction ns arbitrary: c)
  case Nil
  show ?case by (simp add: List.map_filter_simps)
next
  case (Cons n ns)
  show ?case
    by (simp only: fold_simps o_apply Cons)
       (simp add: collectVisitor_step List.map_filter_simps split: option.splits)
qed

lemma walk_collectVisitor:
  "walk t collectVisitor \<lparr>jettonWallets = [], getGemsContracts = [], basicNftSale = []\<rparr> =
     (t, \<lparr>jettonWallets = jettonWalletCandidates t,
          getGemsContracts = getgemsCandidates t,
          basicNftSale = basicSaleCandidates t\<rparr>)"
  by (simp add: walk_reader(1) collectVisitor_node collectVisitor_fold
      jettonWalletCandidates_def getgemsCandidates_def basicSaleCandidates_def)

lemma assignVisitor_resolved:
  "assignVisitor masters getGems basicNftSales n u =
     (set_AdditionalInfo n (Some (resolvedInfo masters getGems basicNftSales n)), u)"
proof (cases "isDestinationJettonWallet (InMsg (Transaction n))")
  case True
  then obtain d where d: "transferDestination n = Some d"
    by (auto simp: isDestinationJettonWallet_iff)
  with True have "derefDestination (InMsg (Transaction n)) = Some d"
    by (simp add: derefDestination_transfer)
  with True d show ?thesis
    by (simp add: assignVisitor_def resolvedInfo_def Let_def hasInterface_iff split: option.splits)
next
  case False
  then have "transferDestination n = None"
    by (simp add: isDestinationJettonWallet_iff)
  with False show ?thesis
    by (simp add: assignVisitor_def resolvedInfo_def Let_def hasInterface_iff split: option.splits)
qed

lemma walk_assignVisitor:
  "walk t (assignVisitor masters getGems basicNftSales) u = (enriched masters getGems basicNftSales t, u)"
  "walkChildren cs (assignVisitor masters getGems basicNftSales) u =
     (map (enriched masters getGems basicNftSales) cs, u)"
proof (induction t "assignVisitor masters getGems basicNftSales" u
         and cs "assignVisitor masters getGems basicNftSales" u rule: walk_walkChildren.induct)
  case (1 tx ifs cs ai env)
  show ?case using 1 by (simp add: assignVisitor_resolved)
next
  case (2 env)
  show ?case by simp
next
  case (3 child rest env)
  show ?case using 3 by simp
qed

lemma visitChildren_Nil: "visitChildren [] fn env = Some ([], env)"
  by (subst visitChildren.simps) simp

lemma visitChildren_Cons:
  "visitChildren (child # rest) fn env =
     Option.bind (visit child fn env)
       (\<lambda>(child', env1). Option.bind (visitChildren rest fn env1)
          (\<lambda>(rest', env2). Some (child' # rest', env2)))"
  by (subst visitChildren.simps)
     (simp add: visit_def split: prod.splits Option.bind_splits)

lemma visit_walk:
  "\<forall>n e. Children (fst (fn n e)) = Children n \<Longrightarrow> visit t fn env = Some (walk t fn env)"
  "\<forall>n e. Children (fst (fn n e)) = Children n \<Longrightarrow>
     visitChildren cs fn env = Some (walkChildren cs fn env)"
proof (induction t fn env and cs fn env rule: walk_walkChildren.induct)
  case (1 tx ifs cs ai fn env)
  obtain t' e' where f: "fn (Trace tx ifs cs ai) env = (t', e')"
    by (cases "fn (Trace tx ifs cs ai) env")
  have c: "Children t' = cs"
    using "1.prems" [rule_format, of "Trace tx ifs cs ai" env] f by simp
  show ?case
    using "1.IH" [OF f [symmetric] "1.prems"] f c
    by (simp add: visit_def split: prod.splits)
next
  case (2 fn env)
  show ?case by (simp add: visitChildren_Nil)
next
  case (3 child rest fn env)
  obtain c' e' where w: "walk child fn env = (c', e')"
    by (cases "walk child fn env")
  show ?case
    using "3.IH"(1) [OF "3.prems"] "3.IH"(2) [OF w [symmetric] "3.prems"] w
    by (simp add: visitChildren_Cons split: prod.splits)
qed

lemma journalled_Children:
  "\<forall>n e. Children (fst (fn n e)) = Children n \<Longrightarrow>
     \<forall>n e. Children (fst (journalled fn n e)) = Children n"
  by (simp add: journalled_def split: prod.splits) (metis fst_conv)

lemma visit_collectVisitor:
  "visit t collectVisitor \<lparr>jettonWallets = [], getGemsContracts = [], basicNftSale = []\<rparr> =
     Some (t, \<lparr>jettonWallets = jettonWalletCandidates t,
               getGemsContracts = getgemsCandidates t,
               basicNftSale = basicSaleCandidates t\<rparr>)"
  by (simp add: visit_walk(1) collectVisitor_node walk_collectVisitor)

lemma visit_assignVisitor:
  "visit t (assignVisitor masters getGems basicNftSales) u =
     Some (enriched masters getGems basicNftSales t, u)"
  by (simp add: visit_walk(1) assignVisitor_Children walk_assignVisitor(1))

lemma resolvedInfo_fields:
  "Transaction n' = Transaction n \<Longrightarrow> AccountInterfaces n' = AccountInterfaces n \<Longrightarrow>
     resolvedInfo masters getGems basicNftSales n' = resolvedInfo masters getGems basicNftSales n"
  by (simp add: resolvedInfo_def transferDestination_def cong: option.case_cong if_cong)

lemma enriched_idem:
  "enriched masters getGems basicNftSales (enriched masters getGems basicNftSales t) =
     enriched masters getGems basicNftSales t"
proof (induction t)
  case (Trace tx ifs cs ai)
  have "resolvedInfo masters getGems basicNftSales
          (Trace tx ifs (map (enriched masters getGems basicNftSales) cs)
             (Some (resolvedInfo masters getGems basicNftSales (Trace tx ifs cs ai))))
        = resolvedInfo masters getGems basicNftSales (Trace tx ifs cs ai)"
    by (rule resolvedInfo_fields) simp_all
  then show ?case using Trace by (simp cong: map_cong)
qed

lemma preorderNodes_enriched_Transaction:
  "map Transaction (preorderNodes (enriched masters getGems basicNftSales t)) =
     map Transaction (preorderNodes t)"
proof (induction t)
  case (Trace tx ifs cs ai)
  then show ?case by (simp add: map_concat o_def cong: map_cong)
qed

lemma preorderNodes_enriched_AccountInterfaces:
  "map AccountInterfaces (preorderNodes (enriched masters getGems basicNftSales t)) =
     map AccountInterfaces (preorderNodes t)"
proof (induction t)
  case (Trace tx ifs cs ai)
  then show ?case by (simp add: map_concat o_def cong: map_cong)
qed

lemma preorderNodes_enriched_AdditionalInfo:
  "map AdditionalInfo (preorderNodes (enriched masters getGems basicNftSales t)) =
     map (\<lambda>n. Some (resolvedInfo masters getGems basicNftSales n)) (preorderNodes t)"
proof (induction t)
  case (Trace tx ifs cs ai)
  then show ?case by (simp add: map_concat o_def cong: map_cong)
qed

lemma candidates_fields:
  assumes "map Transaction (preorderNodes t') = map Transaction (preorderNodes t)"
    and "map AccountInterfaces (preorderNodes t') = map AccountInterfaces (preorderNodes t)"
  shows "jettonWalletCandidates t' = jettonWalletCandidates t"
    and "getgemsCandidates t' = getgemsCandidates t"
    and "basicSaleCandidates t' = basicSaleCandidates t"
proof -
  have zip: "map (\<lambda>n. (Transaction n, AccountInterfaces n)) (preorderNodes t')
      = map (\<lambda>n. (Transaction n, AccountInterfaces n)) (preorderNodes t)"
    using assms by (simp add: zip_map_map [symmetric] zip_same_conv_map [symmetric] list_eq_iff_nth_eq) 
  have j: "jettonWalletCandidates u =
      List.map_filter (\<lambda>p. transferDestination (Trace (fst p) (snd p) [] None))
        (map (\<lambda>n. (Transaction n, AccountInterfaces n)) (preorderNodes u))" for u
    by (simp add: jettonWalletCandidates_def List.map_filter_def filter_map o_def transferDestination_def)
  have g: "getgemsCandidates u =
      map (\<lambda>p. Account (fst p)) (filter (\<lambda>p. NftSaleGetgems \<in> set (snd p))
        (map (\<lambda>n. (Transaction n, AccountInterfaces n)) (preorderNodes u)))" for u
    by (simp add: getgemsCandidates_def filter_map o_def)
  have b: "basicSaleCandidates u =
      map (\<lambda>p. Account (fst p)) (filter (\<lambda>p. NftSale \<in> set (snd p))
        (map (\<lambda>n. (Transaction n, AccountInterfaces n)) (preorderNodes u)))" for u
    by (simp add: basicSaleCandidates_def filter_map o_def)
  show "jettonWalletCandidates t' = jettonWalletCandidates t" by (simp only: j zip)
  show "getgemsCandidates t' = getgemsCandidates t" by (simp only: g zip)
  show "basicSaleCandidates t' = basicSaleCandidates t" by (simp only: b zip)
qed

lemma candidates_enriched:
  "jettonWalletCandidates (enriched m g b t) = jettonWalletCandidates t"
  "getgemsCandidates (enriched m g b t) = getgemsCandidates t"
  "basicSaleCandidates (enriched m g b t) = basicSaleCandidates t"
  by (rule candidates_fields; rule preorderNodes_enriched_Transaction preorderNodes_enriched_AccountInterfaces)+

lemma preorderNodes_without_Transaction:
  "map Transaction (preorderNodes (withoutAdditionalInfo t)) = map Transaction (preorderNodes t)"
proof (induction t)
  case (Trace tx ifs cs ai)
  then show ?case by (simp add: map_concat o_def cong: map_cong)
qed

lemma preorderNodes_without_AccountInterfaces:
  "map AccountInterfaces (preorderNodes (withoutAdditionalInfo t)) = map AccountInterfaces (preorderNodes t)"
proof (induction t)
  case (Trace tx ifs cs ai)
  then show ?case by (simp add: map_concat o_def cong: map_cong)
qed

lemma candidates_without:
  "jettonWalletCandidates (withoutAdditionalInfo t) = jettonWalletCandidates t"
  "getgemsCandidates (withoutAdditionalInfo t) = getgemsCandidates t"
  "basicSaleCandidates (withoutAdditionalInfo t) = basicSaleCandidates t"
  by (rule candidates_fields; rule preorderNodes_without_Transaction preorderNodes_without_AccountInterfaces)+

lemma enriched_without:
  "enriched m g b (withoutAdditionalInfo t) = enriched m g b t"
proof (induction t)
  case (Trace tx ifs cs ai)
  have "resolvedInfo m g b (Trace tx ifs (map withoutAdditionalInfo cs) None)
        = resolvedInfo m g b (Trace tx ifs cs ai)"
    by (rule resolvedInfo_fields) simp_all
  then show ?case using Trace by (simp cong: map_cong)
qed

lemma length_preorderNodes: "length (preorderNodes t) = nodeCount t"
proof (induction t)
  case (Trace tx ifs cs ai)
  then show ?case by (simp add: length_concat o_def cong: map_cong)
qed

lemma CollectAdditionalInfo_Some:
  "CollectAdditionalInfo (Some src) s t = Some
     (case JettonMastersForWallets src s (jettonWalletCandidates t) of
        (Inl err, s1) \<Rightarrow>
          \<lparr>returned = Some err, tree = t, sourceState = s1,
           issued = [JettonMastersForWalletsQuery (jettonWalletCandidates t)]\<rparr>
      | (Inr masters, s1) \<Rightarrow>
          (case GetGemsContracts src s1 (getgemsCandidates t) of
             (Inl err, s2) \<Rightarrow>
               \<lparr>returned = Some err, tree = t, sourceState = s2,
                issued = [JettonMastersForWalletsQuery (jettonWalletCandidates t),
                          GetGemsContractsQuery (getgemsCandidates t)]\<rparr>
           | (Inr getGems, s2) \<Rightarrow>
               (case NftSaleContracts src s2 (basicSaleCandidates t) of
                  (Inl err, s3) \<Rightarrow>
                    \<lparr>returned = Some err, tree = t, sourceState = s3,
                     issued = [JettonMastersForWalletsQuery (jettonWalletCandidates t),
                               GetGemsContractsQuery (getgemsCandidates t),
                               NftSaleContractsQuery (basicSaleCandidates t)]\<rparr>
                | (Inr basicNftSales, s3) \<Rightarrow>
                    \<lparr>returned = None, tree = enriched masters getGems basicNftSales t,
                     sourceState = s3,
                     issued = [JettonMastersForWalletsQuery (jettonWalletCandidates t),
                               GetGemsContractsQuery (getgemsCandidates t),
                               NftSaleContractsQuery (basicSaleCandidates t)]\<rparr>)))"
  by (simp add: CollectAdditionalInfo_def visit_collectVisitor visit_assignVisitor
      split: prod.splits sum.splits)

lemma CollectAdditionalInfo_success:
  assumes "JettonMastersForWallets src s (jettonWalletCandidates t) = (Inr masters, s1)"
    and "GetGemsContracts src s1 (getgemsCandidates t) = (Inr getGems, s2)"
    and "NftSaleContracts src s2 (basicSaleCandidates t) = (Inr basicNftSales, s3)"
  shows "CollectAdditionalInfo (Some src) s t = Some
     \<lparr>returned = None, tree = enriched masters getGems basicNftSales t, sourceState = s3,
      issued = [JettonMastersForWalletsQuery (jettonWalletCandidates t),
                GetGemsContractsQuery (getgemsCandidates t),
                NftSaleContractsQuery (basicSaleCandidates t)]\<rparr>"
  by (simp add: CollectAdditionalInfo_Some assms)

lemma enriched_node:
  assumes "i < length (preorderNodes t)"
  shows "length (preorderNodes (enriched m g b t)) = length (preorderNodes t)"
    and "Transaction (preorderNodes (enriched m g b t) ! i) = Transaction (preorderNodes t ! i)"
    and "AccountInterfaces (preorderNodes (enriched m g b t) ! i) = AccountInterfaces (preorderNodes t ! i)"
    and "AdditionalInfo (preorderNodes (enriched m g b t) ! i) = Some (resolvedInfo m g b (preorderNodes t ! i))"
proof -
  show len: "length (preorderNodes (enriched m g b t)) = length (preorderNodes t)"
    using arg_cong [OF preorderNodes_enriched_Transaction [of m g b t], of length] by simp
  show "Transaction (preorderNodes (enriched m g b t) ! i) = Transaction (preorderNodes t ! i)"
    using arg_cong [OF preorderNodes_enriched_Transaction [of m g b t], of "\<lambda>xs. xs ! i"] assms len
    by simp
  show "AccountInterfaces (preorderNodes (enriched m g b t) ! i) = AccountInterfaces (preorderNodes t ! i)"
    using arg_cong [OF preorderNodes_enriched_AccountInterfaces [of m g b t], of "\<lambda>xs. xs ! i"] assms len
    by simp
  show "AdditionalInfo (preorderNodes (enriched m g b t) ! i) = Some (resolvedInfo m g b (preorderNodes t ! i))"
    using arg_cong [OF preorderNodes_enriched_AdditionalInfo [of m g b t], of "\<lambda>xs. xs ! i"] assms len
    by simp
qed


lemma CollectAdditionalInfo_same_answers:
  assumes "sameAnswersOnEveryCall src"
  shows "map_option tree (CollectAdditionalInfo (Some src) s' t) = Some
     (case fst (JettonMastersForWallets src s (jettonWalletCandidates t)) of
        Inl err \<Rightarrow> t
      | Inr masters \<Rightarrow>
          (case fst (GetGemsContracts src s (getgemsCandidates t)) of
             Inl err \<Rightarrow> t
           | Inr getGems \<Rightarrow>
               (case fst (NftSaleContracts src s (basicSaleCandidates t)) of
                  Inl err \<Rightarrow> t
                | Inr basicNftSales \<Rightarrow> enriched masters getGems basicNftSales t)))"
    and "map_option returned (CollectAdditionalInfo (Some src) s' t) = Some
     (case fst (JettonMastersForWallets src s (jettonWalletCandidates t)) of
        Inl err \<Rightarrow> Some err
      | Inr masters \<Rightarrow>
          (case fst (GetGemsContracts src s (getgemsCandidates t)) of
             Inl err \<Rightarrow> Some err
           | Inr getGems \<Rightarrow>
               (case fst (NftSaleContracts src s (basicSaleCandidates t)) of
                  Inl err \<Rightarrow> Some err
                | Inr basicNftSales \<Rightarrow> None)))"
proof -
  have a1: "fst (JettonMastersForWallets src s ks) = r"
    if "JettonMastersForWallets src x ks = (r, y)" for x ks r y
    using assms that unfolding sameAnswersOnEveryCall_def by (metis fst_conv)
  have a2: "fst (GetGemsContracts src s ks) = r"
    if "GetGemsContracts src x ks = (r, y)" for x ks r y
    using assms that unfolding sameAnswersOnEveryCall_def by (metis fst_conv)
  have a3: "fst (NftSaleContracts src s ks) = r"
    if "NftSaleContracts src x ks = (r, y)" for x ks r y
    using assms that unfolding sameAnswersOnEveryCall_def by (metis fst_conv)
  obtain r1 y1 where p1: "JettonMastersForWallets src s' (jettonWalletCandidates t) = (r1, y1)"
    by (cases "JettonMastersForWallets src s' (jettonWalletCandidates t)")
  obtain r2 y2 where p2: "GetGemsContracts src y1 (getgemsCandidates t) = (r2, y2)"
    by (cases "GetGemsContracts src y1 (getgemsCandidates t)")
  obtain r3 y3 where p3: "NftSaleContracts src y2 (basicSaleCandidates t) = (r3, y3)"
    by (cases "NftSaleContracts src y2 (basicSaleCandidates t)")
  note f = a1 [OF p1] a2 [OF p2] a3 [OF p3]
  show "map_option tree (CollectAdditionalInfo (Some src) s' t) = Some
     (case fst (JettonMastersForWallets src s (jettonWalletCandidates t)) of
        Inl err \<Rightarrow> t
      | Inr masters \<Rightarrow>
          (case fst (GetGemsContracts src s (getgemsCandidates t)) of
             Inl err \<Rightarrow> t
           | Inr getGems \<Rightarrow>
               (case fst (NftSaleContracts src s (basicSaleCandidates t)) of
                  Inl err \<Rightarrow> t
                | Inr basicNftSales \<Rightarrow> enriched masters getGems basicNftSales t)))"
    by (cases r1; cases r2; cases r3) (simp_all add: CollectAdditionalInfo_Some p1 p2 p3 f)
  show "map_option returned (CollectAdditionalInfo (Some src) s' t) = Some
     (case fst (JettonMastersForWallets src s (jettonWalletCandidates t)) of
        Inl err \<Rightarrow> Some err
      | Inr masters \<Rightarrow>
          (case fst (GetGemsContracts src s (getgemsCandidates t)) of
             Inl err \<Rightarrow> Some err
           | Inr getGems \<Rightarrow>
               (case fst (NftSaleContracts src s (basicSaleCandidates t)) of
                  Inl err \<Rightarrow> Some err
                | Inr basicNftSales \<Rightarrow> None)))"
    by (cases r1; cases r2; cases r3) (simp_all add: CollectAdditionalInfo_Some p1 p2 p3 f)
qed
section \<open>Completeness tracker: claims\<close>

text \<open>
  Claim C2. \<open>InProgress\<close> holds exactly when the sum, over the nodes of the tree, of the numbers
  of outbound messages left in the nodes is not zero, and \<open>countUncompleted\<close> is that sum. In
  particular a tree whose nodes all have an empty outbound list is not in progress, and a tree
  with a node whose outbound list is not empty is.
\<close>

theorem InProgress_iff_unmatched_outbound:
  "countUncompleted t = (\<Sum>n\<leftarrow>preorderNodes t. int (length (OutMsgs (Transaction n))))
   \<and> InProgress t = ((\<Sum>n\<leftarrow>preorderNodes t. length (OutMsgs (Transaction n))) \<noteq> 0)
   \<and> ((\<forall>n \<in> set (preorderNodes t). OutMsgs (Transaction n) = []) \<longrightarrow> \<not> InProgress t)
   \<and> ((\<exists>n \<in> set (preorderNodes t). OutMsgs (Transaction n) \<noteq> []) \<longrightarrow> InProgress t)"
proof -
  have "InProgress t = ((\<Sum>n\<leftarrow>preorderNodes t. length (OutMsgs (Transaction n))) \<noteq> 0)"
    by (simp only: InProgress_def countUncompleted_nat of_nat_eq_0_iff)
  then show ?thesis
    using countUncompleted_sum [of t] InProgress_iff_ex [of t] by blast
qed

theorem InProgress_iff_unmatched_outbound_witness:
  "map (\<lambda>n. OutMsgs (Transaction n)) (preorderNodes settledTrace) = [[], []]
   \<and> \<not> InProgress settledTrace
   \<and> map (\<lambda>n. OutMsgs (Transaction n)) (preorderNodes exampleTrace) = [[], [], [plainMsg]]
   \<and> InProgress exampleTrace
   \<and> countUncompleted exampleTrace = 1"
proof -
  have s: "map (\<lambda>n. OutMsgs (Transaction n)) (preorderNodes settledTrace) = [[], []]"
    by (simp add: settledTrace_def)
  have e: "map (\<lambda>n. OutMsgs (Transaction n)) (preorderNodes exampleTrace) = [[], [], [plainMsg]]"
    by (simp add: exampleTrace_def)
  have "\<forall>n \<in> set (preorderNodes settledTrace). OutMsgs (Transaction n) = []"
    by (simp add: settledTrace_def)
  then have 1: "\<not> InProgress settledTrace"
    using InProgress_iff_unmatched_outbound [of settledTrace] by blast
  have "\<exists>n \<in> set (preorderNodes exampleTrace). OutMsgs (Transaction n) \<noteq> []"
    by (simp add: exampleTrace_def)
  then have 2: "InProgress exampleTrace"
    using InProgress_iff_unmatched_outbound [of exampleTrace] by blast
  have 3: "countUncompleted exampleTrace = 1"
    using InProgress_iff_unmatched_outbound [of exampleTrace] by (simp add: exampleTrace_def)
  from s e 1 2 3 show ?thesis by simp
qed

text \<open>
  Claim C10. Two trees of the same shape with equally many outbound messages at corresponding
  nodes have the same count and the same \<open>InProgress\<close>, whatever else their nodes hold.
\<close>

theorem InProgress_depends_on_outbound_shape:
  "sameOutboundShape t u \<Longrightarrow> countUncompleted t = countUncompleted u \<and> InProgress t = InProgress u"
  by (simp add: InProgress_def sameOutboundShape_count(1))

theorem InProgress_depends_on_outbound_shape_witness:
  "sameOutboundShape exampleTrace lookalikeTrace
   \<and> Transaction exampleTrace \<noteq> Transaction lookalikeTrace
   \<and> AccountInterfaces exampleTrace \<noteq> AccountInterfaces lookalikeTrace
   \<and> AdditionalInfo exampleTrace \<noteq> AdditionalInfo lookalikeTrace
   \<and> countUncompleted exampleTrace = countUncompleted lookalikeTrace
   \<and> InProgress exampleTrace = InProgress lookalikeTrace"
proof -
  have h: "sameOutboundShape exampleTrace lookalikeTrace"
    by (simp add: exampleTrace_def lookalikeTrace_def)
  have d: "Transaction exampleTrace \<noteq> Transaction lookalikeTrace
      \<and> AccountInterfaces exampleTrace \<noteq> AccountInterfaces lookalikeTrace
      \<and> AdditionalInfo exampleTrace \<noteq> AdditionalInfo lookalikeTrace"
    by (simp add: exampleTrace_def lookalikeTrace_def)
  from InProgress_depends_on_outbound_shape [OF h] h d show ?thesis by simp
qed

section \<open>Traversal: claim\<close>

text \<open>
  Claim C8, as the specification states it, fails for a visitor that writes \<open>Children\<close>: the
  loop of \<open>visit\<close> reads the children after the visitor has run, so a visitor that empties
  them is called on the root of a two-node tree and never on its child.
\<close>

theorem visit_skips_cleared_children:
  "visit settledTrace (journalled clearChildren) ((), []) =
     Some (set_Children settledTrace [], (), [settledTrace])
   \<and> length (preorderNodes settledTrace) = 2"
  by (simp add: visit_def journalled_def clearChildren_def settledTrace_def visitChildren_Nil)

text \<open>
  Claim C8, amended. For every visitor that leaves the subtrees of the node it is given as they
  are (it does not write \<open>Children\<close>), \<open>visit\<close> returns and calls the visitor on every node
  once, in pre-order: the same visitor keeping a journal of the nodes it is called on computes
  what it computes without the journal, and the journal is the pre-order enumeration of the
  tree, which has one entry per node. Hence the first walk of \<open>CollectAdditionalInfo\<close> returns
  with the tree as it was and with the three slices holding the qualifying addresses in
  pre-order, every occurrence kept.
\<close>

theorem visit_preorder_once:
  assumes "\<forall>n e. Children (fst (fn n e)) = Children n"
  shows "(\<exists>t' env'. visit t fn env = Some (t', env')
            \<and> visit t (journalled fn) (env, []) = Some (t', env', preorderNodes t))
   \<and> length (preorderNodes t) = nodeCount t
   \<and> visit t collectVisitor \<lparr>jettonWallets = [], getGemsContracts = [], basicNftSale = []\<rparr> =
       Some (t,
         \<lparr>jettonWallets = List.map_filter transferDestination (preorderNodes t),
          getGemsContracts = map (\<lambda>n. Account (Transaction n))
             (filter (\<lambda>n. NftSaleGetgems \<in> set (AccountInterfaces n)) (preorderNodes t)),
          basicNftSale = map (\<lambda>n. Account (Transaction n))
             (filter (\<lambda>n. NftSale \<in> set (AccountInterfaces n)) (preorderNodes t))\<rparr>)"
proof -
  have v: "visit t fn env = Some (walk t fn env)"
    by (rule visit_walk(1) [OF assms])
  have j: "visit t (journalled fn) (env, []) = Some (walk t (journalled fn) (env, []))"
    by (rule visit_walk(1) [OF journalled_Children [OF assms]])
  have w: "walk t (journalled fn) (env, []) =
      (fst (walk t fn env), snd (walk t fn env), preorderNodes t)"
    using walk_journalled_both(1) [of t fn env "[]"] by simp
  have "\<exists>t' env'. visit t fn env = Some (t', env')
      \<and> visit t (journalled fn) (env, []) = Some (t', env', preorderNodes t)"
    using v j w by (intro exI [of _ "fst (walk t fn env)"] exI [of _ "snd (walk t fn env)"]) simp
  then show ?thesis
    by (simp add: length_preorderNodes visit_collectVisitor
        jettonWalletCandidates_def getgemsCandidates_def basicSaleCandidates_def)
qed

theorem visit_preorder_once_witness:
  "map_option (\<lambda>r. snd (snd r))
     (visit exampleTrace (journalled (assignVisitor Map.empty Map.empty Map.empty)) ((), [])) =
     Some (preorderNodes exampleTrace)
   \<and> length (preorderNodes exampleTrace) = 3"
proof -
  have h: "\<forall>n e. Children (fst (assignVisitor Map.empty Map.empty Map.empty n e)) = Children n"
    by (simp add: assignVisitor_Children)
  have l: "length (preorderNodes exampleTrace) = 3"
    by (simp add: exampleTrace_def)
  from visit_preorder_once [OF h, of exampleTrace "()"] l show ?thesis by auto
qed

section \<open>Batched enrichment: claims\<close>

text \<open>
  Claim C4. With a nil information source \<open>CollectAdditionalInfo\<close> returns nil, makes no call
  and leaves the tree, and with it the \<open>AdditionalInfo\<close> of every node, as it was.
\<close>

theorem CollectAdditionalInfo_nil_source:
  "\<exists>r. CollectAdditionalInfo None s t = Some r
     \<and> returned r = None
     \<and> tree r = t
     \<and> map AdditionalInfo (preorderNodes (tree r)) = map AdditionalInfo (preorderNodes t)
     \<and> issued r = []
     \<and> sourceState r = s"
  by (simp add: CollectAdditionalInfo_def)

text \<open>
  Claim C1, as the specification states it, fails: when a query fails the tree is left as it
  was passed in, so a node that was annotated before the call is still annotated after it.
\<close>

theorem failed_enrichment_keeps_old_annotation:
  "JettonMastersForWallets failingSource 0 (jettonWalletCandidates annotatedLeaf) =
     (Inl (Error ''source unavailable''), Suc 0)
   \<and> CollectAdditionalInfo (Some failingSource) 0 annotatedLeaf =
       Some \<lparr>returned = Some (Error ''source unavailable''), tree = annotatedLeaf,
             sourceState = Suc 0, issued = [JettonMastersForWalletsQuery []]\<rparr>
   \<and> AdditionalInfo annotatedLeaf = Some \<lparr>JettonMaster = None, NftSaleContract = None\<rparr>"
proof -
  have "jettonWalletCandidates annotatedLeaf = []"
    by (simp add: jettonWalletCandidates_def annotatedLeaf_def transferDestination_def
        List.map_filter_simps)
  then show ?thesis
    by (simp add: CollectAdditionalInfo_Some failingSource_def) (simp add: annotatedLeaf_def)
qed

text \<open>
  Claim C1, amended. When one of the three queries returns an error, the first in the order of
  the calls, \<open>CollectAdditionalInfo\<close> returns that error and leaves the tree as it was passed
  in: the \<open>AdditionalInfo\<close> of no node changes, and if no node had one before the call, no node
  has one after it.
\<close>

theorem CollectAdditionalInfo_source_failure:
  assumes "JettonMastersForWallets src s (jettonWalletCandidates t) = (Inl err, s1)
     \<or> JettonMastersForWallets src s (jettonWalletCandidates t) = (Inr masters, s1)
       \<and> GetGemsContracts src s1 (getgemsCandidates t) = (Inl err, s2)
     \<or> JettonMastersForWallets src s (jettonWalletCandidates t) = (Inr masters, s1)
       \<and> GetGemsContracts src s1 (getgemsCandidates t) = (Inr getGems, s2)
       \<and> NftSaleContracts src s2 (basicSaleCandidates t) = (Inl err, s3)"
  shows "\<exists>r. CollectAdditionalInfo (Some src) s t = Some r
   \<and> returned r = Some err
   \<and> tree r = t
   \<and> map AdditionalInfo (preorderNodes (tree r)) = map AdditionalInfo (preorderNodes t)
   \<and> ((\<forall>n \<in> set (preorderNodes t). AdditionalInfo n = None) \<longrightarrow>
       (\<forall>n \<in> set (preorderNodes (tree r)). AdditionalInfo n = None))"
proof -
  have "\<exists>r. CollectAdditionalInfo (Some src) s t = Some r \<and> returned r = Some err \<and> tree r = t"
    using assms by (auto simp add: CollectAdditionalInfo_Some)
  then show ?thesis by auto
qed

theorem CollectAdditionalInfo_source_failure_witness:
  "JettonMastersForWallets secondFailingSource 0 (jettonWalletCandidates exampleTrace) =
     (Inr [walletD \<mapsto> masterM], Suc 0)
   \<and> GetGemsContracts secondFailingSource (Suc 0) (getgemsCandidates exampleTrace) =
     (Inl (Error ''context canceled''), Suc (Suc 0))
   \<and> map AdditionalInfo (preorderNodes exampleTrace) = [None, None, None]
   \<and> map_option returned (CollectAdditionalInfo (Some secondFailingSource) 0 exampleTrace) =
       Some (Some (Error ''context canceled''))
   \<and> map_option tree (CollectAdditionalInfo (Some secondFailingSource) 0 exampleTrace) =
       Some exampleTrace"
proof -
  have h1: "JettonMastersForWallets secondFailingSource 0 (jettonWalletCandidates exampleTrace) =
      (Inr [walletD \<mapsto> masterM], Suc 0)"
    by (simp add: secondFailingSource_def)
  have h2: "GetGemsContracts secondFailingSource (Suc 0) (getgemsCandidates exampleTrace) =
      (Inl (Error ''context canceled''), Suc (Suc 0))"
    by (simp add: secondFailingSource_def)
  have h3: "map AdditionalInfo (preorderNodes exampleTrace) = [None, None, None]"
    by (simp add: exampleTrace_def)
  have "\<exists>r. CollectAdditionalInfo (Some secondFailingSource) 0 exampleTrace = Some r
      \<and> returned r = Some (Error ''context canceled'') \<and> tree r = exampleTrace"
    using CollectAdditionalInfo_source_failure
      [of secondFailingSource 0 exampleTrace "Error ''context canceled''" "Suc 0"
          "[walletD \<mapsto> masterM]" "Suc (Suc 0)"] h1 h2
    by blast
  with h1 h2 h3 show ?thesis by auto
qed

text \<open>
  Claim C5, as the specification states it, fails: a source whose first query returns an error
  is asked one query, not three.
\<close>

theorem failing_first_query_issues_one_query:
  "CollectAdditionalInfo (Some failingSource) 0 exampleTrace =
     Some \<lparr>returned = Some (Error ''source unavailable''), tree = exampleTrace,
           sourceState = Suc 0, issued = [JettonMastersForWalletsQuery [walletD]]\<rparr>
   \<and> map_option issued (CollectAdditionalInfo (Some failingSource) 0 exampleTrace) =
       Some [JettonMastersForWalletsQuery [walletD]]
   \<and> length [JettonMastersForWalletsQuery [walletD]] \<noteq> 3"
proof -
  have "jettonWalletCandidates exampleTrace = [walletD]"
    by (simp add: jettonWalletCandidates_def exampleTrace_def transferMsg_def plainMsg_def
        transferDestination_def List.map_filter_simps)
  then show ?thesis
    by (simp add: CollectAdditionalInfo_Some failingSource_def)
qed

text \<open>
  Claim C5, amended. On a non-nil source \<open>CollectAdditionalInfo\<close> makes at least one and at
  most three calls, whatever the size of the tree: the jetton-master query, then the
  marketplace-variant query, then the basic-sale query, in this order and ending with the first
  that returns an error, so all three when the first two succeed. The slice given to each call
  is the sequence of qualifying addresses of one pre-order walk of the tree.
\<close>

theorem CollectAdditionalInfo_queries:
  "\<exists>r. CollectAdditionalInfo (Some src) s t = Some r
   \<and> (JettonMastersForWallets src s (jettonWalletCandidates t) = (Inl err, s1) \<longrightarrow>
      issued r = [JettonMastersForWalletsQuery (jettonWalletCandidates t)])
   \<and> (JettonMastersForWallets src s (jettonWalletCandidates t) = (Inr masters, s1)
      \<and> GetGemsContracts src s1 (getgemsCandidates t) = (Inl err, s2) \<longrightarrow>
      issued r =
        [JettonMastersForWalletsQuery (jettonWalletCandidates t),
         GetGemsContractsQuery (getgemsCandidates t)])
   \<and> (JettonMastersForWallets src s (jettonWalletCandidates t) = (Inr masters, s1)
      \<and> GetGemsContracts src s1 (getgemsCandidates t) = (Inr getGems, s2) \<longrightarrow>
      issued r =
        [JettonMastersForWalletsQuery (jettonWalletCandidates t),
         GetGemsContractsQuery (getgemsCandidates t),
         NftSaleContractsQuery (basicSaleCandidates t)])
   \<and> 1 \<le> length (issued r)
   \<and> length (issued r) \<le> 3
   \<and> issued r =
       take (length (issued r))
         [JettonMastersForWalletsQuery (jettonWalletCandidates t),
          GetGemsContractsQuery (getgemsCandidates t),
          NftSaleContractsQuery (basicSaleCandidates t)]"
  by (simp add: CollectAdditionalInfo_Some split: prod.splits sum.splits)

theorem CollectAdditionalInfo_queries_witness:
  "map_option issued (CollectAdditionalInfo (Some failingSource) 0 exampleTrace) =
     Some [JettonMastersForWalletsQuery (jettonWalletCandidates exampleTrace)]
   \<and> map_option issued (CollectAdditionalInfo (Some secondFailingSource) 0 exampleTrace) =
     Some [JettonMastersForWalletsQuery (jettonWalletCandidates exampleTrace),
           GetGemsContractsQuery (getgemsCandidates exampleTrace)]
   \<and> map_option issued (CollectAdditionalInfo (Some exampleSource) 0 exampleTrace) =
     Some [JettonMastersForWalletsQuery (jettonWalletCandidates exampleTrace),
           GetGemsContractsQuery (getgemsCandidates exampleTrace),
           NftSaleContractsQuery (basicSaleCandidates exampleTrace)]"
proof -
  have f: "JettonMastersForWallets failingSource 0 (jettonWalletCandidates exampleTrace) =
      (Inl (Error ''source unavailable''), Suc 0)"
    by (simp add: failingSource_def)
  have g1: "JettonMastersForWallets secondFailingSource 0 (jettonWalletCandidates exampleTrace) =
      (Inr [walletD \<mapsto> masterM], Suc 0)"
    by (simp add: secondFailingSource_def)
  have g2: "GetGemsContracts secondFailingSource (Suc 0) (getgemsCandidates exampleTrace) =
      (Inl (Error ''context canceled''), Suc (Suc 0))"
    by (simp add: secondFailingSource_def)
  have e1: "JettonMastersForWallets exampleSource 0 (jettonWalletCandidates exampleTrace) =
      (Inr [walletD \<mapsto> masterM], Suc 0)"
    by (simp add: exampleSource_def)
  have e2: "GetGemsContracts exampleSource (Suc 0) (getgemsCandidates exampleTrace) =
      (Inr [saleB \<mapsto> getgemsSale], Suc (Suc 0))"
    by (simp add: exampleSource_def)
  have 1: "map_option issued (CollectAdditionalInfo (Some failingSource) 0 exampleTrace) =
      Some [JettonMastersForWalletsQuery (jettonWalletCandidates exampleTrace)]"
    using CollectAdditionalInfo_queries
      [of failingSource 0 exampleTrace "Error ''source unavailable''" "Suc 0"] f
    by fastforce
  have 2: "map_option issued (CollectAdditionalInfo (Some secondFailingSource) 0 exampleTrace) =
      Some [JettonMastersForWalletsQuery (jettonWalletCandidates exampleTrace),
            GetGemsContractsQuery (getgemsCandidates exampleTrace)]"
    using CollectAdditionalInfo_queries
      [of secondFailingSource 0 exampleTrace "Error ''context canceled''" "Suc 0"
          "[walletD \<mapsto> masterM]" "Suc (Suc 0)"] g1 g2
    by fastforce
  have 3: "map_option issued (CollectAdditionalInfo (Some exampleSource) 0 exampleTrace) =
      Some [JettonMastersForWalletsQuery (jettonWalletCandidates exampleTrace),
            GetGemsContractsQuery (getgemsCandidates exampleTrace),
            NftSaleContractsQuery (basicSaleCandidates exampleTrace)]"
    using CollectAdditionalInfo_queries
      [of exampleSource 0 exampleTrace _ "Suc 0" "[walletD \<mapsto> masterM]" "Suc (Suc 0)"
          "[saleB \<mapsto> getgemsSale]"] e1 e2
    by fastforce
  from 1 2 3 show ?thesis by simp
qed

text \<open>
  Claim C6. When the three queries succeed, \<open>CollectAdditionalInfo\<close> returns nil and every node
  of the tree, otherwise unchanged, gets a new \<open>AdditionalInfo\<close> that does not depend on the one
  it had (the result is the same from the tree with every annotation removed). A node that is
  not the destination of a token transfer and has neither sale capability ends with both fields
  unset. A node whose inbound message is present, is decoded and is a token transfer to \<open>D\<close>,
  where the jetton query maps \<open>D\<close> to \<open>M\<close>, ends with \<open>JettonMaster\<close> equal to \<open>M\<close>.
\<close>

theorem CollectAdditionalInfo_success_annotation:
  assumes q1: "JettonMastersForWallets src s (jettonWalletCandidates t) = (Inr masters, s1)"
    and q2: "GetGemsContracts src s1 (getgemsCandidates t) = (Inr getGems, s2)"
    and q3: "NftSaleContracts src s2 (basicSaleCandidates t) = (Inr basicNftSales, s3)"
    and i: "i < length (preorderNodes t)"
  shows "\<exists>r. CollectAdditionalInfo (Some src) s t = Some r
   \<and> returned r = None
   \<and> length (preorderNodes (tree r)) = length (preorderNodes t)
   \<and> Transaction (preorderNodes (tree r) ! i) = Transaction (preorderNodes t ! i)
   \<and> AccountInterfaces (preorderNodes (tree r) ! i) = AccountInterfaces (preorderNodes t ! i)
   \<and> map_option tree (CollectAdditionalInfo (Some src) s (withoutAdditionalInfo t)) = Some (tree r)
   \<and> (\<exists>a. AdditionalInfo (preorderNodes (tree r) ! i) = Some a
        \<and> (\<not> isDestinationJettonWallet (InMsg (Transaction (preorderNodes t ! i)))
           \<and> NftSaleGetgems \<notin> set (AccountInterfaces (preorderNodes t ! i))
           \<and> NftSale \<notin> set (AccountInterfaces (preorderNodes t ! i))
           \<longrightarrow> a = \<lparr>JettonMaster = None, NftSaleContract = None\<rparr>)
        \<and> (\<forall>m body D M.
              InMsg (Transaction (preorderNodes t ! i)) = Some m
              \<and> DecodedBody m = Some body
              \<and> Operation body = JettonTransferMsgOp
              \<and> Destination m = Some D
              \<and> masters D = Some M
              \<longrightarrow> JettonMaster a = Some M))"
proof -
  let ?n = "preorderNodes t ! i"
  let ?a = "resolvedInfo masters getGems basicNftSales ?n"
  have R: "CollectAdditionalInfo (Some src) s t = Some
      \<lparr>returned = None, tree = enriched masters getGems basicNftSales t, sourceState = s3,
       issued = [JettonMastersForWalletsQuery (jettonWalletCandidates t),
                 GetGemsContractsQuery (getgemsCandidates t),
                 NftSaleContractsQuery (basicSaleCandidates t)]\<rparr>"
    by (rule CollectAdditionalInfo_success [OF q1 q2 q3])
  have W: "map_option tree (CollectAdditionalInfo (Some src) s (withoutAdditionalInfo t)) =
      Some (enriched masters getGems basicNftSales t)"
    by (simp add: CollectAdditionalInfo_Some candidates_without q1 q2 q3 enriched_without)
  have plain: "?a = \<lparr>JettonMaster = None, NftSaleContract = None\<rparr>"
    if "\<not> isDestinationJettonWallet (InMsg (Transaction ?n))"
      and "NftSaleGetgems \<notin> set (AccountInterfaces ?n)"
      and "NftSale \<notin> set (AccountInterfaces ?n)"
    using that by (simp add: resolvedInfo_def isDestinationJettonWallet_iff)
  have transfer: "JettonMaster ?a = Some M"
    if "InMsg (Transaction ?n) = Some m" and "DecodedBody m = Some body"
      and "Operation body = JettonTransferMsgOp" and "Destination m = Some D"
      and "masters D = Some M" for m body D M
    using that by (simp add: resolvedInfo_def transferDestination_def)
  have "AdditionalInfo (preorderNodes (enriched masters getGems basicNftSales t) ! i) = Some ?a"
    by (rule enriched_node(4) [OF i])
  with plain transfer R W enriched_node(1,2,3) [OF i, of masters getGems basicNftSales]
  show ?thesis by auto
qed

theorem CollectAdditionalInfo_success_annotation_witness:
  "JettonMastersForWallets exampleSource 0 (jettonWalletCandidates exampleTrace) =
     (Inr [walletD \<mapsto> masterM], Suc 0)
   \<and> GetGemsContracts exampleSource (Suc 0) (getgemsCandidates exampleTrace) =
     (Inr [saleB \<mapsto> getgemsSale], Suc (Suc 0))
   \<and> NftSaleContracts exampleSource (Suc (Suc 0)) (basicSaleCandidates exampleTrace) =
     (Inr [saleB \<mapsto> basicSale], Suc (Suc (Suc 0)))
   \<and> length (preorderNodes exampleTrace) = 3
   \<and> map_option returned (CollectAdditionalInfo (Some exampleSource) 0 exampleTrace) = Some None
   \<and> map_option (\<lambda>r. map_option JettonMaster (AdditionalInfo (preorderNodes (tree r) ! 0)))
       (CollectAdditionalInfo (Some exampleSource) 0 exampleTrace)
       = Some (Some (Some masterM))
   \<and> map_option (\<lambda>r. AdditionalInfo (preorderNodes (tree r) ! 2))
       (CollectAdditionalInfo (Some exampleSource) 0 exampleTrace)
       = Some (Some \<lparr>JettonMaster = None, NftSaleContract = None\<rparr>)"
proof -
  have h1: "JettonMastersForWallets exampleSource 0 (jettonWalletCandidates exampleTrace) =
      (Inr [walletD \<mapsto> masterM], Suc 0)"
    by (simp add: exampleSource_def)
  have h2: "GetGemsContracts exampleSource (Suc 0) (getgemsCandidates exampleTrace) =
      (Inr [saleB \<mapsto> getgemsSale], Suc (Suc 0))"
    by (simp add: exampleSource_def)
  have h3: "NftSaleContracts exampleSource (Suc (Suc 0)) (basicSaleCandidates exampleTrace) =
      (Inr [saleB \<mapsto> basicSale], Suc (Suc (Suc 0)))"
    by (simp add: exampleSource_def)
  have len: "length (preorderNodes exampleTrace) = 3"
    by (simp add: exampleTrace_def)
  have i0: "0 < length (preorderNodes exampleTrace)" and i2: "2 < length (preorderNodes exampleTrace)"
    by (simp_all add: len)
  have root: "InMsg (Transaction (preorderNodes exampleTrace ! 0)) = Some transferMsg
      \<and> DecodedBody transferMsg = Some \<lparr>Operation = JettonTransferMsgOp\<rparr>
      \<and> Operation \<lparr>Operation = JettonTransferMsgOp\<rparr> = JettonTransferMsgOp
      \<and> Destination transferMsg = Some walletD
      \<and> [walletD \<mapsto> masterM] walletD = Some masterM"
    by (simp add: exampleTrace_def transferMsg_def)
  have leaf: "\<not> isDestinationJettonWallet (InMsg (Transaction (preorderNodes exampleTrace ! 2)))
      \<and> NftSaleGetgems \<notin> set (AccountInterfaces (preorderNodes exampleTrace ! 2))
      \<and> NftSale \<notin> set (AccountInterfaces (preorderNodes exampleTrace ! 2))"
    by (simp add: exampleTrace_def plainMsg_def)
  have r: "map_option returned (CollectAdditionalInfo (Some exampleSource) 0 exampleTrace) = Some None"
    using CollectAdditionalInfo_success_annotation [OF h1 h2 h3 i0] by auto
  have a0: "map_option (\<lambda>r. map_option JettonMaster (AdditionalInfo (preorderNodes (tree r) ! 0)))
      (CollectAdditionalInfo (Some exampleSource) 0 exampleTrace) = Some (Some (Some masterM))"
    using CollectAdditionalInfo_success_annotation [OF h1 h2 h3 i0] root by fastforce
  have a2: "map_option (\<lambda>r. AdditionalInfo (preorderNodes (tree r) ! 2))
      (CollectAdditionalInfo (Some exampleSource) 0 exampleTrace)
      = Some (Some \<lparr>JettonMaster = None, NftSaleContract = None\<rparr>)"
    using CollectAdditionalInfo_success_annotation [OF h1 h2 h3 i2] leaf by fastforce
  from h1 h2 h3 len r a0 a2 show ?thesis by simp
qed

text \<open>
  Claim C3. When the three queries succeed, a node that has both sale capabilities and whose
  account is known to the marketplace-variant mapping and to the basic-sale mapping ends with
  the \<open>NftSaleContract\<close> of the basic-sale mapping.
\<close>

theorem basic_sale_overrides_getgems:
  assumes q1: "JettonMastersForWallets src s (jettonWalletCandidates t) = (Inr masters, s1)"
    and q2: "GetGemsContracts src s1 (getgemsCandidates t) = (Inr getGems, s2)"
    and q3: "NftSaleContracts src s2 (basicSaleCandidates t) = (Inr basicNftSales, s3)"
    and i: "i < length (preorderNodes t)"
    and gg: "NftSaleGetgems \<in> set (AccountInterfaces (preorderNodes t ! i))"
    and ns: "NftSale \<in> set (AccountInterfaces (preorderNodes t ! i))"
    and g: "getGems (Account (Transaction (preorderNodes t ! i))) = Some getgems"
    and b: "basicNftSales (Account (Transaction (preorderNodes t ! i))) = Some sale"
  shows "\<exists>r. CollectAdditionalInfo (Some src) s t = Some r
   \<and> returned r = None
   \<and> (\<exists>a. AdditionalInfo (preorderNodes (tree r) ! i) = Some a \<and> NftSaleContract a = Some sale)"
  using enriched_node(4) [OF i, of masters getGems basicNftSales] gg ns g b
  by (simp add: CollectAdditionalInfo_success [OF q1 q2 q3] resolvedInfo_def)

theorem basic_sale_overrides_getgems_witness:
  "JettonMastersForWallets exampleSource 0 (jettonWalletCandidates exampleTrace) =
     (Inr [walletD \<mapsto> masterM], Suc 0)
   \<and> GetGemsContracts exampleSource (Suc 0) (getgemsCandidates exampleTrace) =
     (Inr [saleB \<mapsto> getgemsSale], Suc (Suc 0))
   \<and> NftSaleContracts exampleSource (Suc (Suc 0)) (basicSaleCandidates exampleTrace) =
     (Inr [saleB \<mapsto> basicSale], Suc (Suc (Suc 0)))
   \<and> AccountInterfaces (preorderNodes exampleTrace ! 1) = [NftSaleGetgems, NftSale]
   \<and> [saleB \<mapsto> getgemsSale] (Account (Transaction (preorderNodes exampleTrace ! 1))) = Some getgemsSale
   \<and> [saleB \<mapsto> basicSale] (Account (Transaction (preorderNodes exampleTrace ! 1))) = Some basicSale
   \<and> getgemsSale \<noteq> basicSale
   \<and> map_option (\<lambda>r. map_option NftSaleContract (AdditionalInfo (preorderNodes (tree r) ! 1)))
       (CollectAdditionalInfo (Some exampleSource) 0 exampleTrace)
       = Some (Some (Some basicSale))"
proof -
  have h1: "JettonMastersForWallets exampleSource 0 (jettonWalletCandidates exampleTrace) =
      (Inr [walletD \<mapsto> masterM], Suc 0)"
    by (simp add: exampleSource_def)
  have h2: "GetGemsContracts exampleSource (Suc 0) (getgemsCandidates exampleTrace) =
      (Inr [saleB \<mapsto> getgemsSale], Suc (Suc 0))"
    by (simp add: exampleSource_def)
  have h3: "NftSaleContracts exampleSource (Suc (Suc 0)) (basicSaleCandidates exampleTrace) =
      (Inr [saleB \<mapsto> basicSale], Suc (Suc (Suc 0)))"
    by (simp add: exampleSource_def)
  have i: "1 < length (preorderNodes exampleTrace)"
    by (simp add: exampleTrace_def)
  have ifs: "AccountInterfaces (preorderNodes exampleTrace ! 1) = [NftSaleGetgems, NftSale]"
    by (simp add: exampleTrace_def)
  have gg: "NftSaleGetgems \<in> set (AccountInterfaces (preorderNodes exampleTrace ! 1))"
    and ns: "NftSale \<in> set (AccountInterfaces (preorderNodes exampleTrace ! 1))"
    using ifs by simp_all
  have g: "[saleB \<mapsto> getgemsSale] (Account (Transaction (preorderNodes exampleTrace ! 1))) = Some getgemsSale"
    by (simp add: exampleTrace_def)
  have b: "[saleB \<mapsto> basicSale] (Account (Transaction (preorderNodes exampleTrace ! 1))) = Some basicSale"
    by (simp add: exampleTrace_def)
  have d: "getgemsSale \<noteq> basicSale"
    by (simp add: getgemsSale_def basicSale_def)
  have "map_option (\<lambda>r. map_option NftSaleContract (AdditionalInfo (preorderNodes (tree r) ! 1)))
      (CollectAdditionalInfo (Some exampleSource) 0 exampleTrace) = Some (Some (Some basicSale))"
    using basic_sale_overrides_getgems [OF h1 h2 h3 i gg ns g b] by fastforce
  with h1 h2 h3 ifs g b d show ?thesis by simp
qed

text \<open>
  Claim C9. When the three queries succeed, a node that has both sale capabilities and whose
  account is known to the marketplace-variant mapping but not to the basic-sale mapping ends
  with the \<open>NftSaleContract\<close> of the marketplace-variant mapping.
\<close>

theorem getgems_kept_without_basic_sale:
  assumes q1: "JettonMastersForWallets src s (jettonWalletCandidates t) = (Inr masters, s1)"
    and q2: "GetGemsContracts src s1 (getgemsCandidates t) = (Inr getGems, s2)"
    and q3: "NftSaleContracts src s2 (basicSaleCandidates t) = (Inr basicNftSales, s3)"
    and i: "i < length (preorderNodes t)"
    and gg: "NftSaleGetgems \<in> set (AccountInterfaces (preorderNodes t ! i))"
    and ns: "NftSale \<in> set (AccountInterfaces (preorderNodes t ! i))"
    and g: "getGems (Account (Transaction (preorderNodes t ! i))) = Some getgems"
    and b: "basicNftSales (Account (Transaction (preorderNodes t ! i))) = None"
  shows "\<exists>r. CollectAdditionalInfo (Some src) s t = Some r
   \<and> returned r = None
   \<and> (\<exists>a. AdditionalInfo (preorderNodes (tree r) ! i) = Some a \<and> NftSaleContract a = Some getgems)"
  using enriched_node(4) [OF i, of masters getGems basicNftSales] gg ns g b
  by (simp add: CollectAdditionalInfo_success [OF q1 q2 q3] resolvedInfo_def)

theorem getgems_kept_without_basic_sale_witness:
  "JettonMastersForWallets getgemsOnlySource 0 (jettonWalletCandidates exampleTrace) =
     (Inr Map.empty, Suc 0)
   \<and> GetGemsContracts getgemsOnlySource (Suc 0) (getgemsCandidates exampleTrace) =
     (Inr [saleB \<mapsto> getgemsSale], Suc (Suc 0))
   \<and> NftSaleContracts getgemsOnlySource (Suc (Suc 0)) (basicSaleCandidates exampleTrace) =
     (Inr Map.empty, Suc (Suc (Suc 0)))
   \<and> AccountInterfaces (preorderNodes exampleTrace ! 1) = [NftSaleGetgems, NftSale]
   \<and> [saleB \<mapsto> getgemsSale] (Account (Transaction (preorderNodes exampleTrace ! 1))) = Some getgemsSale
   \<and> (Map.empty :: AccountID \<rightharpoonup> NftSaleContract) (Account (Transaction (preorderNodes exampleTrace ! 1))) = None
   \<and> map_option (\<lambda>r. map_option NftSaleContract (AdditionalInfo (preorderNodes (tree r) ! 1)))
       (CollectAdditionalInfo (Some getgemsOnlySource) 0 exampleTrace)
       = Some (Some (Some getgemsSale))"
proof -
  have h1: "JettonMastersForWallets getgemsOnlySource 0 (jettonWalletCandidates exampleTrace) =
      (Inr Map.empty, Suc 0)"
    by (simp add: getgemsOnlySource_def)
  have h2: "GetGemsContracts getgemsOnlySource (Suc 0) (getgemsCandidates exampleTrace) =
      (Inr [saleB \<mapsto> getgemsSale], Suc (Suc 0))"
    by (simp add: getgemsOnlySource_def)
  have h3: "NftSaleContracts getgemsOnlySource (Suc (Suc 0)) (basicSaleCandidates exampleTrace) =
      (Inr Map.empty, Suc (Suc (Suc 0)))"
    by (simp add: getgemsOnlySource_def)
  have i: "1 < length (preorderNodes exampleTrace)"
    by (simp add: exampleTrace_def)
  have ifs: "AccountInterfaces (preorderNodes exampleTrace ! 1) = [NftSaleGetgems, NftSale]"
    by (simp add: exampleTrace_def)
  have gg: "NftSaleGetgems \<in> set (AccountInterfaces (preorderNodes exampleTrace ! 1))"
    and ns: "NftSale \<in> set (AccountInterfaces (preorderNodes exampleTrace ! 1))"
    using ifs by simp_all
  have g: "[saleB \<mapsto> getgemsSale] (Account (Transaction (preorderNodes exampleTrace ! 1))) = Some getgemsSale"
    by (simp add: exampleTrace_def)
  have b: "(Map.empty :: AccountID \<rightharpoonup> NftSaleContract) (Account (Transaction (preorderNodes exampleTrace ! 1))) = None"
    by simp
  have "map_option (\<lambda>r. map_option NftSaleContract (AdditionalInfo (preorderNodes (tree r) ! 1)))
      (CollectAdditionalInfo (Some getgemsOnlySource) 0 exampleTrace) = Some (Some (Some getgemsSale))"
    using getgems_kept_without_basic_sale [OF h1 h2 h3 i gg ns g b] by fastforce
  with h1 h2 h3 ifs g b show ?thesis by simp
qed

text \<open>
  Claim C7. With a source that returns the same answers on every call (or with no source), a
  second call of \<open>CollectAdditionalInfo\<close>, on the tree and the source as the first call left
  them, returns what the first call returned and leaves the tree, and so the annotation of
  every node, as the first call left it.
\<close>

theorem CollectAdditionalInfo_idempotent:
  assumes "\<forall>src. infoSource = Some src \<longrightarrow> sameAnswersOnEveryCall src"
  shows "\<exists>r1 r2. CollectAdditionalInfo infoSource s t = Some r1
   \<and> CollectAdditionalInfo infoSource (sourceState r1) (tree r1) = Some r2
   \<and> tree r2 = tree r1
   \<and> returned r2 = returned r1
   \<and> map AdditionalInfo (preorderNodes (tree r2)) = map AdditionalInfo (preorderNodes (tree r1))"
proof (cases infoSource)
  case None
  then show ?thesis by (simp add: CollectAdditionalInfo_def)
next
  case (Some src)
  with assms have sa: "sameAnswersOnEveryCall src" by simp
  note tr = CollectAdditionalInfo_same_answers(1) [OF sa, of _ _ s]
  note re = CollectAdditionalInfo_same_answers(2) [OF sa, of _ _ s]
  obtain r1 where r1: "CollectAdditionalInfo (Some src) s t = Some r1"
    by (simp add: CollectAdditionalInfo_Some)
  obtain r2 where r2: "CollectAdditionalInfo (Some src) (sourceState r1) (tree r1) = Some r2"
    by (simp add: CollectAdditionalInfo_Some)
  have "tree r2 = tree r1 \<and> returned r2 = returned r1"
    using tr [of s t] re [of s t] tr [of "sourceState r1" "tree r1"]
      re [of "sourceState r1" "tree r1"] r1 r2
    by (cases "fst (JettonMastersForWallets src s (jettonWalletCandidates t))";
        cases "fst (GetGemsContracts src s (getgemsCandidates t))";
        cases "fst (NftSaleContracts src s (basicSaleCandidates t))")
       (simp_all add: candidates_enriched enriched_idem)
  with Some r1 r2 show ?thesis by simp
qed

theorem CollectAdditionalInfo_idempotent_witness:
  "sameAnswersOnEveryCall exampleSource
   \<and> map_option sourceState (CollectAdditionalInfo (Some exampleSource) 0 exampleTrace) = Some 3
   \<and> map_option tree (CollectAdditionalInfo (Some exampleSource) 0 exampleTrace) =
       Some (enriched [walletD \<mapsto> masterM] [saleB \<mapsto> getgemsSale] [saleB \<mapsto> basicSale] exampleTrace)
   \<and> map_option tree (CollectAdditionalInfo (Some exampleSource) 0 exampleTrace) \<noteq> Some exampleTrace
   \<and> map_option tree (CollectAdditionalInfo (Some exampleSource) 3
        (enriched [walletD \<mapsto> masterM] [saleB \<mapsto> getgemsSale] [saleB \<mapsto> basicSale] exampleTrace)) =
       map_option tree (CollectAdditionalInfo (Some exampleSource) 0 exampleTrace)
   \<and> map_option returned (CollectAdditionalInfo (Some exampleSource) 3
        (enriched [walletD \<mapsto> masterM] [saleB \<mapsto> getgemsSale] [saleB \<mapsto> basicSale] exampleTrace)) =
       map_option returned (CollectAdditionalInfo (Some exampleSource) 0 exampleTrace)"
proof -
  have sa: "sameAnswersOnEveryCall exampleSource"
    by (simp add: sameAnswersOnEveryCall_def exampleSource_def)
  then have h: "\<forall>src. Some exampleSource = Some src \<longrightarrow> sameAnswersOnEveryCall src"
    by simp
  have first: "CollectAdditionalInfo (Some exampleSource) 0 exampleTrace = Some
      \<lparr>returned = None,
       tree = enriched [walletD \<mapsto> masterM] [saleB \<mapsto> getgemsSale] [saleB \<mapsto> basicSale] exampleTrace,
       sourceState = 3,
       issued = [JettonMastersForWalletsQuery (jettonWalletCandidates exampleTrace),
                 GetGemsContractsQuery (getgemsCandidates exampleTrace),
                 NftSaleContractsQuery (basicSaleCandidates exampleTrace)]\<rparr>"
    by (simp add: CollectAdditionalInfo_Some exampleSource_def)
  have ne: "enriched [walletD \<mapsto> masterM] [saleB \<mapsto> getgemsSale] [saleB \<mapsto> basicSale] exampleTrace
      \<noteq> exampleTrace"
    by (simp add: exampleTrace_def)
  from CollectAdditionalInfo_idempotent [OF h, of 0 exampleTrace] first sa ne
  show ?thesis by auto
qed

end
